theory Spec2Isabelle
  imports Complex_Main
begin

section \<open>Python values used by the two scripts\<close>

text \<open>
  The repository holds two near-duplicate Python 2 scripts,
  \<^verbatim>\<open>spotify-playlist-import.py\<close> and \<^verbatim>\<open>read-id3-tags.py\<close>.  Definitions
  without a suffix embed the first one; definitions ending in \<open>_rid3\<close> embed the
  function of the same name in \<^verbatim>\<open>read-id3-tags.py\<close>.

  Exceptions are values.  \<open>SystemExit\<close> is what \<^verbatim>\<open>sys.exit\<close> raises; it is not a
  subclass of \<^verbatim>\<open>Exception\<close>, so an \<^verbatim>\<open>except Exception\<close> clause lets it pass.
  \<open>External\<close> stands for any exception raised inside a library the scripts call
  (eyed3, plistlib, spotipy).
\<close>

datatype error =
    KeyError string
  | IndexError
  | AttributeError
  | External string
  | SystemExit int

fun is_Exception :: "error \<Rightarrow> bool" where
  "is_Exception (SystemExit n) = False"
| "is_Exception e = True"

subsection \<open>Strings\<close>

text \<open>The characters \<^verbatim>\<open>str.strip()\<close> removes: space, tab, newline, carriage
  return, vertical tab and form feed.\<close>

definition is_space :: "char \<Rightarrow> bool" where
  "is_space c \<longleftrightarrow>
     c = CHR '' '' \<or> c = CHR 0x09 \<or> c = CHR 0x0A \<or> c = CHR 0x0D \<or> c = CHR 0x0B \<or> c = CHR 0x0C"

definition lstrip :: "string \<Rightarrow> string" where
  "lstrip s = dropWhile is_space s"

definition rstrip :: "string \<Rightarrow> string" where
  "rstrip s = rev (dropWhile is_space (rev s))"

definition strip :: "string \<Rightarrow> string" where
  "strip s = rstrip (lstrip s)"

text \<open>\<^verbatim>\<open>s.startswith(p)\<close>.\<close>

definition startswith :: "string \<Rightarrow> string \<Rightarrow> bool" where
  "startswith s p \<longleftrightarrow> take (length p) s = p"

text \<open>\<^verbatim>\<open>s.split(sep)\<close> for a one-character separator: every occurrence of the
  separator cuts, and the result always has at least one part.\<close>

fun str_split :: "char \<Rightarrow> string \<Rightarrow> string list" where
  "str_split sep [] = [[]]"
| "str_split sep (c # cs) =
     (if c = sep then [] # str_split sep cs
      else (case str_split sep cs of
              [] \<Rightarrow> [[c]]
            | p # ps \<Rightarrow> (c # p) # ps))"

text \<open>\<^verbatim>\<open>s.rfind(c)\<close>: the index of the last occurrence of \<open>c\<close>, or \<open>-1\<close>.\<close>

fun rfind_from :: "char \<Rightarrow> string \<Rightarrow> int \<Rightarrow> int \<Rightarrow> int" where
  "rfind_from c [] i found = found"
| "rfind_from c (x # xs) i found = rfind_from c xs (i + 1) (if x = c then i else found)"

definition rfind :: "string \<Rightarrow> char \<Rightarrow> int" where
  "rfind s c = rfind_from c s 0 (- 1)"

text \<open>\<^verbatim>\<open>posixpath.basename\<close>: \<^verbatim>\<open>i = p.rfind('/') + 1; return p[i:]\<close>.\<close>

definition basename :: "string \<Rightarrow> string" where
  "basename p = drop (nat (rfind p (CHR ''/'') + 1)) p"

text \<open>\<^verbatim>\<open>posixpath.splitext\<close> (\<^verbatim>\<open>genericpath._splitext\<close> with separator \<^verbatim>\<open>/\<close>
  and no alternative separator): the extension starts at the last dot, unless
  that dot lies before the last separator or only dots stand between the
  separator and it.\<close>

definition splitext :: "string \<Rightarrow> string \<times> string" where
  "splitext p =
     (let sepIndex = rfind p (CHR ''/'');
          dotIndex = rfind p (CHR ''.'')
      in if dotIndex > sepIndex
            \<and> list_ex (\<lambda>c. c \<noteq> CHR ''.'')
                  (take (nat (dotIndex - (sepIndex + 1))) (drop (nat (sepIndex + 1)) p))
         then (take (nat dotIndex) p, drop (nat dotIndex) p)
         else (p, []))"

section \<open>Metadata extraction\<close>

text \<open>The dictionary \<^verbatim>\<open>{'artist': ..., 'name': ...}\<close> that both the tag reader and
  the filename heuristic return.\<close>

record tag_data =
  td_artist :: string
  td_name :: string

text \<open>
  \<^verbatim>\<open>guess_missing_track_info\<close>:
  \<^verbatim>\<open>
    guess = None
    filename = os.path.basename(file_name)
    filename_no_ext = os.path.splitext(filename)[0]
    track_uri_parts = filename_no_ext.split('-')
    if len(track_uri_parts) > 1:
        guess = {'artist': track_uri_parts[0].strip(),
                 'name': track_uri_parts[1].strip()}
    return guess
  \<close>
\<close>

definition filename_no_ext :: "string \<Rightarrow> string" where
  "filename_no_ext file_name = fst (splitext (basename file_name))"

definition guess_missing_track_info :: "string \<Rightarrow> tag_data option" where
  "guess_missing_track_info file_name =
     (let track_uri_parts = str_split (CHR ''-'') (filename_no_ext file_name)
      in if length track_uri_parts > 1
         then Some \<lparr>td_artist = strip (track_uri_parts ! 0),
                    td_name = strip (track_uri_parts ! 1)\<rparr>
         else None)"

text \<open>The heuristic as the specification words it: cut at the first \<^verbatim>\<open>-\<close> only,
  the artist is the trimmed left part and the title the trimmed whole right
  part.\<close>

definition guess_first_dash_spec :: "string \<Rightarrow> tag_data option" where
  "guess_first_dash_spec file_name =
     (let b = filename_no_ext file_name
      in if CHR ''-'' \<in> set b
         then Some \<lparr>td_artist = strip (takeWhile (\<lambda>c. c \<noteq> CHR ''-'') b),
                    td_name = strip (tl (dropWhile (\<lambda>c. c \<noteq> CHR ''-'') b))\<rparr>
         else None)"


section \<open>Track descriptors and the playlist source reader\<close>

text \<open>The dictionary \<^verbatim>\<open>{'id': ..., 'name': ..., 'artist': ...}\<close> that the resolver
  returns for a match.\<close>

record match =
  m_id :: string
  m_name :: string
  m_artist :: string

datatype source = Id3 | Guess | Itunes

text \<open>
  A track is a Python dictionary that gains keys as the run proceeds.  Each
  field is the value at the key of the same name, \<open>None\<close> when the key is
  absent.  \<open>spotify_data\<close> is \<open>None\<close> when the key is absent or holds \<^verbatim>\<open>False\<close>;
  the key is always written before it is read.
\<close>

record track =
  path :: "string option"
  artist :: "string option"
  name :: "string option"
  source :: "source option"
  spotify_data :: "match option"

text \<open>Iterating over a file opened in mode \<^verbatim>\<open>'r'\<close> yields its lines, each with
  its terminating newline; a last line without newline is yielded as it is.\<close>

fun file_lines :: "string \<Rightarrow> string list" where
  "file_lines [] = []"
| "file_lines (c # cs) =
     (if c = CHR 0x0A then [c] # file_lines cs
      else (case file_lines cs of
              [] \<Rightarrow> [[c]]
            | l # ls \<Rightarrow> (c # l) # ls))"

text \<open>
  \<^verbatim>\<open>_parse_m3u\<close>:
  \<^verbatim>\<open>
    content = [line.strip() for line in playlist_file
               if line.strip() and not line.startswith("#")]
    for track in content:
        tracks.append({'path': track})
  \<close>
\<close>

definition m3u_content :: "string list \<Rightarrow> string list" where
  "m3u_content lines =
     map strip (filter (\<lambda>line. strip line \<noteq> [] \<and> \<not> startswith line ''#'') lines)"

fun append_paths :: "track list \<Rightarrow> string list \<Rightarrow> track list" where
  "append_paths tracks [] = tracks"
| "append_paths tracks (t # content) =
     append_paths
       (tracks @ [\<lparr>path = Some t, artist = None, name = None, source = None,
                    spotify_data = None\<rparr>])
       content"

definition parse_m3u :: "string \<Rightarrow> track list \<Rightarrow> track list" where
  "parse_m3u text tracks = append_paths tracks (m3u_content (file_lines text))"

text \<open>
  A record of the \<^verbatim>\<open>Tracks\<close> mapping of a library export is a dictionary from
  field names to strings.  A parsed property list is represented by the value
  at its key \<^verbatim>\<open>Tracks\<close>: \<open>None\<close> when the key is missing, otherwise the entries
  in the order in which \<^verbatim>\<open>.values()\<close> iterates.

  \<^verbatim>\<open>_parse_xml\<close>:
  \<^verbatim>\<open>
    playlist = plistlib.readPlist(playlist_file)
    for track_meta in playlist['Tracks'].values():
        artist = track_meta['Artist'] if 'Artist' in track_meta else ''
        name = track_meta['Name'] if 'Name' in track_meta else ''
        tracks.append({'artist': artist, 'name': name, 'source': 'itunes'})
  \<close>
\<close>

type_synonym track_meta = "string \<rightharpoonup> string"

type_synonym plist = "(string \<times> track_meta) list option"

definition itunes_track :: "track_meta \<Rightarrow> track" where
  "itunes_track track_meta =
     \<lparr>path = None,
      artist = Some (case track_meta ''Artist'' of Some a \<Rightarrow> a | None \<Rightarrow> []),
      name = Some (case track_meta ''Name'' of Some n \<Rightarrow> n | None \<Rightarrow> []),
      source = Some Itunes,
      spotify_data = None\<rparr>"

fun append_itunes :: "track list \<Rightarrow> track_meta list \<Rightarrow> track list" where
  "append_itunes tracks [] = tracks"
| "append_itunes tracks (track_meta # rest) =
     append_itunes (tracks @ [itunes_track track_meta]) rest"

definition parse_xml ::
  "(string \<Rightarrow> error + plist) \<Rightarrow> string \<Rightarrow> track list \<Rightarrow> error + track list" where
  "parse_xml readPlist text tracks =
     (case readPlist text of
        Inl e \<Rightarrow> Inl e
      | Inr None \<Rightarrow> Inl (KeyError ''Tracks'')
      | Inr (Some entries) \<Rightarrow> Inr (append_itunes tracks (map snd entries)))"

text \<open>What the run prints, logs at critical level and asks of the remote
  service, in order.  Messages at debug level are not modelled.\<close>

datatype cell = Shown string string | Not_required | None_red

record report =
  rp_identity :: string
  rp_id3 :: cell
  rp_guess :: cell
  rp_spotify :: "match option"

datatype event =
    Print_missing_environment
  | Print_unsupported_extension
  | Log_load_failed string
  | Print_parsed nat string
  | Print_track_info report
  | Print_no_tracks_matched
  | Print_matched nat nat string
  | Call_playlist_create string string
  | Call_playlist_add_tracks string string "string list"
  | Log_spotify_error
  | Print_done
  | Log_no_token string

record playlist_file =
  pf_name :: string
  pf_text :: string

record loaded =
  tracks :: "track list"
  read_id3 :: bool

text \<open>
  \<^verbatim>\<open>load_playlist_file\<close>: the extension chooses the parser; an exception of a
  parser is logged twice and turned into \<^verbatim>\<open>sys.exit(1)\<close>; the \<^verbatim>\<open>sys.exit(1)\<close> of
  the unsupported extension passes the \<^verbatim>\<open>except Exception\<close> clause.
\<close>

definition load_playlist_file ::
  "(string \<Rightarrow> error + plist) \<Rightarrow> playlist_file \<Rightarrow> event list \<times> (error + loaded)" where
  "load_playlist_file readPlist playlist_file =
     (let file_ext = snd (splitext (pf_name playlist_file))
      in if file_ext = ''.m3u''
         then ([], Inr \<lparr>tracks = parse_m3u (pf_text playlist_file) [], read_id3 = True\<rparr>)
         else if file_ext = ''.xml''
         then (case parse_xml readPlist (pf_text playlist_file) [] of
                 Inl e \<Rightarrow>
                   if is_Exception e
                   then ([Log_load_failed (pf_name playlist_file),
                          Log_load_failed (pf_name playlist_file)], Inl (SystemExit 1))
                   else ([], Inl e)
               | Inr ts \<Rightarrow> ([], Inr \<lparr>tracks = ts, read_id3 = False\<rparr>))
         else ([Print_unsupported_extension], Inl (SystemExit 1)))"

section \<open>Reading embedded tags\<close>

text \<open>
  What \<^verbatim>\<open>eyed3.load\<close> hands back: it raises (for a path that is not a file), or
  returns \<^verbatim>\<open>None\<close> (for a file whose type it does not recognise), or returns an
  audio file object whose \<^verbatim>\<open>tag\<close> may be \<^verbatim>\<open>None\<close> and whose tag's \<^verbatim>\<open>artist\<close> and
  \<^verbatim>\<open>title\<close> may each be \<^verbatim>\<open>None\<close>.
\<close>

record id3_tag =
  tag_artist :: "string option"
  tag_title :: "string option"

record audio_file =
  tag :: "id3_tag option"

text \<open>
  \<^verbatim>\<open>read_id3_tags\<close>:
  \<^verbatim>\<open>
    tag_data = None
    try:
        track_id3 = eyed3.load(file_name)
    except Exception as e:
        logger.debug(...)
    else:
        logger.debug(...)
        if track_id3.tag is not None:
            if track_id3.tag.artist is not None and track_id3.tag.title is not None:
                tag_data = {'artist': track_id3.tag.artist, 'name': track_id3.tag.title}
    return tag_data
  \<close>
  The \<^verbatim>\<open>else\<close> block runs outside the protection of the \<^verbatim>\<open>try\<close>: reading
  \<^verbatim>\<open>.tag\<close> of \<^verbatim>\<open>None\<close> raises \<^verbatim>\<open>AttributeError\<close> to the caller.
\<close>

definition read_id3_tags ::
  "(string \<Rightarrow> error + audio_file option) \<Rightarrow> string \<Rightarrow> error + tag_data option" where
  "read_id3_tags eyed3_load file_name =
     (case eyed3_load file_name of
        Inl e \<Rightarrow> if is_Exception e then Inr None else Inl e
      | Inr None \<Rightarrow> Inl AttributeError
      | Inr (Some track_id3) \<Rightarrow>
          (case tag track_id3 of
             None \<Rightarrow> Inr None
           | Some t \<Rightarrow>
               (case tag_artist t of
                  None \<Rightarrow> Inr None
                | Some a \<Rightarrow>
                    (case tag_title t of
                       None \<Rightarrow> Inr None
                     | Some n \<Rightarrow> Inr (Some \<lparr>td_artist = a, td_name = n\<rparr>)))))"

text \<open>\<^verbatim>\<open>track.update(data, source=s)\<close>.\<close>

definition update_track :: "track \<Rightarrow> tag_data \<Rightarrow> source \<Rightarrow> track" where
  "update_track t d s =
     t\<lparr>artist := Some (td_artist d), name := Some (td_name d), source := Some s\<rparr>"

text \<open>
  The metadata block of the loop of \<^verbatim>\<open>main\<close>:
  \<^verbatim>\<open>
    if try_read_tags is True:
        id3_data = read_id3_tags(track['path'])
        if id3_data is not None:
            track.update(id3_data, source='id3')
        else:
            guess_data = guess_missing_track_info(track['path'])
            if guess_data is not None:
                track.update(guess_data, source='guess')
  \<close>
\<close>

definition filename_fallback :: "track \<Rightarrow> string \<Rightarrow> track" where
  "filename_fallback t p =
     (case guess_missing_track_info p of
        Some guess_data \<Rightarrow> update_track t guess_data Guess
      | None \<Rightarrow> t)"

definition extract_metadata ::
  "(string \<Rightarrow> error + audio_file option) \<Rightarrow> bool \<Rightarrow> track \<Rightarrow> error + track" where
  "extract_metadata eyed3_load try_read_tags t =
     (if try_read_tags
      then (case path t of
              None \<Rightarrow> Inl (KeyError ''path'')
            | Some p \<Rightarrow>
                (case read_id3_tags eyed3_load p of
                   Inl e \<Rightarrow> Inl e
                 | Inr (Some id3_data) \<Rightarrow> Inr (update_track t id3_data Id3)
                 | Inr None \<Rightarrow> Inr (filename_fallback t p)))
      else Inr t)"

section \<open>The match resolver\<close>

text \<open>
  One item of \<^verbatim>\<open>results_raw['tracks']['items']\<close>: the keys the script reads.
  \<open>c_artists\<close> holds the \<^verbatim>\<open>name\<close> of each entry of \<^verbatim>\<open>artists\<close>.
\<close>

record candidate =
  c_id :: string
  c_name :: string
  c_artists :: "string list"

text \<open>
  The collaborators of the resolver.  \<open>sp_search q\<close> is the item list of
  \<^verbatim>\<open>sp.search(q=q, limit=30)\<close>, or the exception the call raises.
  \<open>how_similar a b\<close> is the float \<^verbatim>\<open>SequenceMatcher(None, a, b).ratio()\<close>, taken as
  the rational number it denotes (the ratio is never NaN or infinite), so that
  \<^verbatim>\<open>==\<close>, \<^verbatim>\<open>>\<close> and the order used by \<^verbatim>\<open>sorted\<close> are those of the rationals.
\<close>

record resolver =
  sp_search :: "string \<Rightarrow> error + candidate list"
  how_similar :: "string \<Rightarrow> string \<Rightarrow> rat"

text \<open>The dictionary built from the chosen item;
  \<^verbatim>\<open>spotify_result['artists'][0]\<close> raises \<^verbatim>\<open>IndexError\<close> on an empty list.\<close>

definition result_of :: "candidate \<Rightarrow> error + match option" where
  "result_of c =
     (case c_artists c of
        [] \<Rightarrow> Inl IndexError
      | a # _ \<Rightarrow> Inr (Some \<lparr>m_id = c_id c, m_name = c_name c, m_artist = a\<rparr>))"

text \<open>The ranking loop: it returns from the function at the first item whose
  rank equals \<^verbatim>\<open>1.0\<close>; \<open>None\<close> when the loop runs to its end.\<close>

fun rank_loop :: "(candidate \<Rightarrow> rat) \<Rightarrow> candidate list \<Rightarrow> candidate option" where
  "rank_loop rank [] = None"
| "rank_loop rank (spotify_result # rest) =
     (if rank spotify_result = 1 then Some spotify_result else rank_loop rank rest)"

text \<open>\<^verbatim>\<open>sorted(xs, key=rank, reverse=True)\<close>: Python's sort is stable also under
  \<^verbatim>\<open>reverse=True\<close>, items of equal key keep their order.  A stable ascending sort
  on the negated key is the same list.\<close>

definition sorted_reverse :: "(candidate \<Rightarrow> rat) \<Rightarrow> candidate list \<Rightarrow> candidate list" where
  "sorted_reverse rank xs = sort_key (\<lambda>k. - rank k) xs"

text \<open>
  \<^verbatim>\<open>_select_result_from_spotify_search\<close>:
  \<^verbatim>\<open>
    results_raw = sp.search(q=search_string, limit=30)
    if len(results_raw['tracks']['items']) > 0:
        spotify_results = results_raw['tracks']['items']
        for spotify_result in spotify_results:
            spotify_result['rank'] = _how_similar(track_name, spotify_result['name'])
            if spotify_result['rank'] == 1.0:
                return {...}
        spotify_results_sorted = sorted(spotify_results, key=lambda k: k['rank'], reverse=True)
        if len(spotify_results_sorted) > 0 and spotify_results_sorted[0]['rank'] > spotify_match_threshold:
            return {...}
    return False
  \<close>
  \<open>Inr None\<close> is the return value \<^verbatim>\<open>False\<close>.
\<close>

definition select_result_from_spotify_search ::
  "resolver \<Rightarrow> string \<Rightarrow> string \<Rightarrow> rat \<Rightarrow> error + match option" where
  "select_result_from_spotify_search sp search_string track_name spotify_match_threshold =
     (case sp_search sp search_string of
        Inl e \<Rightarrow> Inl e
      | Inr spotify_results \<Rightarrow>
          if length spotify_results > 0
          then (let rank = (\<lambda>k. how_similar sp track_name (c_name k))
                in case rank_loop rank spotify_results of
                     Some spotify_result \<Rightarrow> result_of spotify_result
                   | None \<Rightarrow>
                       (case sorted_reverse rank spotify_results of
                          [] \<Rightarrow> Inr None
                        | first # _ \<Rightarrow>
                            if rank first > spotify_match_threshold
                            then result_of first
                            else Inr None))
          else Inr None)"

definition spotify_match_threshold :: rat where
  "spotify_match_threshold = 1 / 2"

text \<open>\<^verbatim>\<open>'%s %s' % (artist, name)\<close>.\<close>

definition search_string_of :: "string \<Rightarrow> string \<Rightarrow> string" where
  "search_string_of a n = a @ '' '' @ n"

text \<open>
  \<^verbatim>\<open>find_spotify_track\<close> of \<^verbatim>\<open>spotify-playlist-import.py\<close>, paired with the list
  of queries it has sent to the catalog, in order:
  \<^verbatim>\<open>
    if 'artist' in track and 'name' in track:
        spotify_search_string = '%s %s' % (track['artist'], track['name'])
        search_result = _select_result_from_spotify_search(
            spotify_search_string, track['name'], spotify_match_threshold)
        if search_result:
            return search_result
    return False
  \<close>
\<close>

definition find_spotify_track ::
  "resolver \<Rightarrow> track \<Rightarrow> string list \<times> (error + match option)" where
  "find_spotify_track sp t =
     (case (artist t, name t) of
        (Some a, Some n) \<Rightarrow>
          ([search_string_of a n],
           select_result_from_spotify_search sp (search_string_of a n) n
             spotify_match_threshold)
      | _ \<Rightarrow> ([], Inr None))"

text \<open>
  \<^verbatim>\<open>find_spotify_track\<close> of \<^verbatim>\<open>read-id3-tags.py\<close>.  There a track holds its tag
  data at \<^verbatim>\<open>id3_data\<close> and its filename guess at \<^verbatim>\<open>guess\<close>, each a dictionary with
  the keys \<^verbatim>\<open>artist\<close> and \<^verbatim>\<open>title\<close>, or \<^verbatim>\<open>False\<close>; \<open>None\<close> stands for \<^verbatim>\<open>False\<close> and,
  for \<^verbatim>\<open>guess\<close>, also for the absent key.  The function is paired with the list of
  queries it has sent to the catalog, in order.
  \<^verbatim>\<open>
    if track['id3_data'] and 'artist' in track['id3_data'] and 'title' in track['id3_data']:
        search_result = _select_result_from_spotify_search(
            '%s %s' % (track['id3_data']['artist'], track['id3_data']['title']),
            track['id3_data']['title'], spotify_match_threshold)
        if search_result:
            return search_result
    if 'guess' in track and track['guess'] and 'artist' in track['guess'] and 'title' in track['guess']:
        ... the same with track['guess'] ...
        if search_result:
            return search_result
    return False
  \<close>
\<close>

record track_rid3 =
  id3_data :: "tag_data option"
  guess :: "tag_data option"

definition guess_attempt_rid3 ::
  "resolver \<Rightarrow> track_rid3 \<Rightarrow> string list \<times> (error + match option)" where
  "guess_attempt_rid3 sp t =
     (case guess t of
        None \<Rightarrow> ([], Inr None)
      | Some g \<Rightarrow>
          ([search_string_of (td_artist g) (td_name g)],
           select_result_from_spotify_search sp
             (search_string_of (td_artist g) (td_name g)) (td_name g) spotify_match_threshold))"

definition find_spotify_track_rid3 ::
  "resolver \<Rightarrow> track_rid3 \<Rightarrow> string list \<times> (error + match option)" where
  "find_spotify_track_rid3 sp t =
     (case id3_data t of
        None \<Rightarrow> guess_attempt_rid3 sp t
      | Some d \<Rightarrow>
          (let q = search_string_of (td_artist d) (td_name d)
           in case select_result_from_spotify_search sp q (td_name d) spotify_match_threshold of
                Inl e \<Rightarrow> ([q], Inl e)
              | Inr (Some search_result) \<Rightarrow> ([q], Inr (Some search_result))
              | Inr None \<Rightarrow>
                  (let (qs, r) = guess_attempt_rid3 sp t in (q # qs, r))))"

section \<open>The report formatter\<close>

text \<open>
  \<^verbatim>\<open>format_track_info\<close> builds a four-line block; the model keeps its four parts
  and leaves out colours and \<^verbatim>\<open>repr\<close> quoting.  Reading a key the track does not
  have raises \<^verbatim>\<open>KeyError\<close>: \<^verbatim>\<open>track['source']\<close> is read first, and a track for
  which neither tags nor the filename gave data has no such key.
\<close>

definition format_track_info :: "track \<Rightarrow> error + report" where
  "format_track_info t =
     (case source t of
        None \<Rightarrow> Inl (KeyError ''source'')
      | Some s \<Rightarrow>
          (case artist t of
             None \<Rightarrow> Inl (KeyError ''artist'')
           | Some a \<Rightarrow>
               (case name t of
                  None \<Rightarrow> Inl (KeyError ''name'')
                | Some n \<Rightarrow>
                    (let formatted_id3_data = (if s = Id3 then Shown a n else None_red);
                         formatted_guess =
                           (if s = Id3 then Not_required
                            else if s = Guess then Shown a n else None_red)
                     in if s \<noteq> Itunes
                        then (case path t of
                                None \<Rightarrow> Inl (KeyError ''path'')
                              | Some p \<Rightarrow>
                                  Inr \<lparr>rp_identity = p, rp_id3 = formatted_id3_data,
                                       rp_guess = formatted_guess,
                                       rp_spotify = spotify_data t\<rparr>)
                        else Inr \<lparr>rp_identity = a @ '' - '' @ n,
                                  rp_id3 = formatted_id3_data,
                                  rp_guess = formatted_guess,
                                  rp_spotify = spotify_data t\<rparr>))))"

section \<open>The run\<close>

text \<open>
  Everything outside the script that \<^verbatim>\<open>main\<close> talks to.  \<open>prompt_for_user_token u\<close>
  is the token, \<open>None\<close> for \<^verbatim>\<open>None\<close>; \<open>user_playlist_create tok u n\<close> is the \<^verbatim>\<open>id\<close>
  of the playlist created.
\<close>

record env =
  getenv :: "string \<Rightarrow> string option"
  readPlist :: "string \<Rightarrow> error + plist"
  eyed3_load :: "string \<Rightarrow> error + audio_file option"
  sp :: resolver
  prompt_for_user_token :: "string \<Rightarrow> error + string option"
  user_playlist_create :: "string \<Rightarrow> string \<Rightarrow> string \<Rightarrow> error + string"
  user_playlist_add_tracks :: "string \<Rightarrow> string \<Rightarrow> string \<Rightarrow> string list \<Rightarrow> error + unit"

text \<open>The command line: \<^verbatim>\<open>--file\<close> (opened for reading) and \<^verbatim>\<open>--username\<close>;
  \<^verbatim>\<open>--debug\<close> only sets log levels.\<close>

record args =
  file_arg :: playlist_file
  username :: string

text \<open>Truth value of a string that may be \<^verbatim>\<open>None\<close>: \<^verbatim>\<open>None\<close> and \<^verbatim>\<open>''\<close> are false.\<close>

definition truthy :: "string option \<Rightarrow> bool" where
  "truthy v = (case v of None \<Rightarrow> False | Some s \<Rightarrow> s \<noteq> [])"

definition init_credentials_manager :: "(string \<Rightarrow> string option) \<Rightarrow> unit option" where
  "init_credentials_manager ge =
     (if \<not> truthy (ge ''SPOTIPY_CLIENT_ID'') \<or> \<not> truthy (ge ''SPOTIPY_CLIENT_SECRET'')
         \<or> \<not> truthy (ge ''SPOTIPY_REDIRECT_URI'')
      then None else Some ())"

text \<open>One pass of the loop of \<^verbatim>\<open>main\<close> over a track, and the loop.  An exception
  ends the loop; what was printed before it stays printed.\<close>

definition process_track :: "env \<Rightarrow> bool \<Rightarrow> track \<Rightarrow> error + track \<times> report" where
  "process_track E try_read_tags t =
     (case extract_metadata (eyed3_load E) try_read_tags t of
        Inl e \<Rightarrow> Inl e
      | Inr t1 \<Rightarrow>
          (case snd (find_spotify_track (sp E) t1) of
             Inl e \<Rightarrow> Inl e
           | Inr found \<Rightarrow>
               (let t2 = t1\<lparr>spotify_data := found\<rparr>
                in case format_track_info t2 of
                     Inl e \<Rightarrow> Inl e
                   | Inr r \<Rightarrow> Inr (t2, r))))"

fun process_tracks :: "env \<Rightarrow> bool \<Rightarrow> track list \<Rightarrow> event list \<times> (error + track list)" where
  "process_tracks E try_read_tags [] = ([], Inr [])"
| "process_tracks E try_read_tags (t # ts) =
     (case process_track E try_read_tags t of
        Inl e \<Rightarrow> ([], Inl e)
      | Inr (t2, r) \<Rightarrow>
          (case process_tracks E try_read_tags ts of
             (evs, Inl e) \<Rightarrow> (Print_track_info r # evs, Inl e)
           | (evs, Inr ts2) \<Rightarrow> (Print_track_info r # evs, Inr (t2 # ts2))))"

text \<open>\<^verbatim>\<open>[k['spotify_data']['id'] for k in tracks if k.get('spotify_data')]\<close>.\<close>

fun matched_ids :: "track list \<Rightarrow> string list" where
  "matched_ids [] = []"
| "matched_ids (k # ks) =
     (case spotify_data k of
        Some d \<Rightarrow> m_id d # matched_ids ks
      | None \<Rightarrow> matched_ids ks)"

text \<open>\<^verbatim>\<open>xrange(start, stop, step)\<close> for a positive step (the only call passes 100;
  Python rejects step 0).\<close>

function xrange :: "nat \<Rightarrow> nat \<Rightarrow> nat \<Rightarrow> nat list" where
  "xrange start stop step =
     (if step = 0 \<or> stop \<le> start then [] else start # xrange (start + step) stop step)"
  by pat_completeness auto
termination
  by (relation "measure (\<lambda>(start, stop, step). stop - start)") auto

declare xrange.simps [simp del]

text \<open>\<^verbatim>\<open>(seq[pos:pos + size] for pos in xrange(0, len(seq), size))\<close>.\<close>

definition chunker :: "'a list \<Rightarrow> nat \<Rightarrow> 'a list list" where
  "chunker seq sz = map (\<lambda>pos. take sz (drop pos seq)) (xrange 0 (length seq) sz)"

text \<open>The batches handed to \<^verbatim>\<open>user_playlist_add_tracks\<close>: the chunks when there
  are more than 100 identifiers, otherwise the whole list in one call.\<close>

definition add_batches :: "string list \<Rightarrow> string list list" where
  "add_batches spotify_tracks =
     (if length spotify_tracks > 100 then chunker spotify_tracks 100 else [spotify_tracks])"

fun add_loop ::
  "env \<Rightarrow> string \<Rightarrow> string \<Rightarrow> string \<Rightarrow> string list list \<Rightarrow> event list \<times> (error + unit)" where
  "add_loop E tok u pid [] = ([], Inr ())"
| "add_loop E tok u pid (c # cs) =
     (case user_playlist_add_tracks E tok u pid c of
        Inl e \<Rightarrow> ([Call_playlist_add_tracks u pid c], Inl e)
      | Inr _ \<Rightarrow>
          (case add_loop E tok u pid cs of
             (evs, r) \<Rightarrow> (Call_playlist_add_tracks u pid c # evs, r)))"

text \<open>The batches of the add calls in a sequence of events, in the order in
  which the calls were made.\<close>

fun issued_batches :: "event list \<Rightarrow> string list list" where
  "issued_batches [] = []"
| "issued_batches (Call_playlist_add_tracks u pid c # evs) = c # issued_batches evs"
| "issued_batches (ev # evs) = issued_batches evs"

text \<open>The \<^verbatim>\<open>try\<close> block of \<^verbatim>\<open>main\<close>: create the playlist, add the batches; an
  \<^verbatim>\<open>Exception\<close> is logged and ends the block, otherwise \<^verbatim>\<open>done\<close> is printed.\<close>

definition publish ::
  "env \<Rightarrow> string \<Rightarrow> string \<Rightarrow> string \<Rightarrow> string list \<Rightarrow> event list \<times> (error + unit)" where
  "publish E tok u playlist_name spotify_tracks =
     (case user_playlist_create E tok u playlist_name of
        Inl e \<Rightarrow>
          if is_Exception e
          then ([Call_playlist_create u playlist_name, Log_spotify_error], Inr ())
          else ([Call_playlist_create u playlist_name], Inl e)
      | Inr pid \<Rightarrow>
          (case add_loop E tok u pid (add_batches spotify_tracks) of
             (evs, Inl e) \<Rightarrow>
               if is_Exception e
               then (Call_playlist_create u playlist_name # evs @ [Log_spotify_error], Inr ())
               else (Call_playlist_create u playlist_name # evs, Inl e)
           | (evs, Inr _) \<Rightarrow>
               (Call_playlist_create u playlist_name # evs @ [Print_done], Inr ())))"

text \<open>
  The part of \<^verbatim>\<open>main\<close> after the loop, from
  \<^verbatim>\<open>spotify_tracks = [...]\<close> on.  \<open>Inr (Some 1)\<close> is \<^verbatim>\<open>return 1\<close>, \<open>Inr None\<close> is
  running off the end of the function.
\<close>

definition finish ::
  "env \<Rightarrow> args \<Rightarrow> track list \<Rightarrow> event list \<times> (error + int option)" where
  "finish E a ts =
     (let spotify_tracks = matched_ids ts;
          spotify_playlist_name = pf_name (file_arg a);
          spotify_username = username a
      in if length spotify_tracks < 1
         then ([Print_no_tracks_matched], Inr (Some 1))
         else (case prompt_for_user_token E spotify_username of
                 Inl e \<Rightarrow>
                   ([Print_matched (length spotify_tracks) (length ts) spotify_playlist_name],
                    Inl e)
               | Inr token \<Rightarrow>
                   if truthy token
                   then (case publish E (the token) spotify_username spotify_playlist_name
                                spotify_tracks of
                           (evs, Inl e) \<Rightarrow>
                             (Print_matched (length spotify_tracks) (length ts)
                                spotify_playlist_name # evs, Inl e)
                         | (evs, Inr _) \<Rightarrow>
                             (Print_matched (length spotify_tracks) (length ts)
                                spotify_playlist_name # evs, Inr None))
                   else ([Print_matched (length spotify_tracks) (length ts)
                            spotify_playlist_name,
                          Log_no_token spotify_username], Inr None)))"

definition main :: "env \<Rightarrow> args \<Rightarrow> event list \<times> (error + int option)" where
  "main E a =
     (case init_credentials_manager (getenv E) of
        None \<Rightarrow> ([Print_missing_environment], Inr (Some 1))
      | Some _ \<Rightarrow>
          (case load_playlist_file (readPlist E) (file_arg a) of
             (evs, Inl e) \<Rightarrow> (evs, Inl e)
           | (evs, Inr data) \<Rightarrow>
               (case process_tracks E (read_id3 data) (tracks data) of
                  (evs2, Inl e) \<Rightarrow>
                    (evs @ Print_parsed (length (tracks data)) (pf_name (file_arg a)) # evs2, Inl e)
                | (evs2, Inr ts) \<Rightarrow>
                    (case finish E a ts of
                       (evs3, r) \<Rightarrow>
                         (evs @ Print_parsed (length (tracks data)) (pf_name (file_arg a))
                            # evs2 @ evs3, r)))))"

text \<open>
  The script ends with
  \<^verbatim>\<open>
    if __name__ == "__main__":
        main()
  \<close>
  so the value \<^verbatim>\<open>main\<close> returns is dropped.  The exit status of the process is 0
  when \<^verbatim>\<open>main\<close> returns, the argument of \<^verbatim>\<open>sys.exit\<close> when that was called, and 1
  for any other uncaught exception.
\<close>

definition exit_status :: "error + int option \<Rightarrow> int" where
  "exit_status outcome =
     (case outcome of
        Inr _ \<Rightarrow> 0
      | Inl (SystemExit n) \<Rightarrow> n
      | Inl _ \<Rightarrow> 1)"

definition run :: "env \<Rightarrow> args \<Rightarrow> event list \<times> int" where
  "run E a = (case main E a of (evs, outcome) \<Rightarrow> (evs, exit_status outcome))"

section \<open>The filename heuristic\<close>

lemma str_split_unfold:
  "str_split sep s =
     takeWhile (\<lambda>c. c \<noteq> sep) s #
       (if sep \<in> set s then str_split sep (tl (dropWhile (\<lambda>c. c \<noteq> sep) s)) else [])"
  by (induction s) (auto split: list.splits)

text \<open>
  Claim C3, as amended.  For a file name whose base name (extension stripped)
  contains a \<^verbatim>\<open>-\<close>, the heuristic yields a guess whose artist is the trimmed text
  before the first \<^verbatim>\<open>-\<close> and whose title is the trimmed text between the first
  \<^verbatim>\<open>-\<close> and the second one (up to the end when there is no second one).  For
  a base name without \<^verbatim>\<open>-\<close> it yields no guess.
\<close>

theorem guess_second_segment:
  "guess_missing_track_info file_name =
     (let b = filename_no_ext file_name
      in if CHR ''-'' \<in> set b
         then Some \<lparr>td_artist = strip (takeWhile (\<lambda>c. c \<noteq> CHR ''-'') b),
                    td_name = strip (takeWhile (\<lambda>c. c \<noteq> CHR ''-'')
                                       (tl (dropWhile (\<lambda>c. c \<noteq> CHR ''-'') b)))\<rparr>
         else None)"
proof -
  let ?b = "filename_no_ext file_name"
  let ?r = "tl (dropWhile (\<lambda>c. c \<noteq> CHR ''-'') ?b)"
  show ?thesis
  proof (cases "CHR ''-'' \<in> set ?b")
    case True
    have "str_split (CHR ''-'') ?b =
            takeWhile (\<lambda>c. c \<noteq> CHR ''-'') ?b # str_split (CHR ''-'') ?r"
      using True str_split_unfold [of "CHR ''-''" ?b] by simp
    moreover have "str_split (CHR ''-'') ?r =
            takeWhile (\<lambda>c. c \<noteq> CHR ''-'') ?r #
              (if CHR ''-'' \<in> set ?r
               then str_split (CHR ''-'') (tl (dropWhile (\<lambda>c. c \<noteq> CHR ''-'') ?r)) else [])"
      by (rule str_split_unfold)
    ultimately show ?thesis
      using True by (simp add: guess_missing_track_info_def Let_def)
  next
    case False
    have "str_split (CHR ''-'') ?b = [takeWhile (\<lambda>c. c \<noteq> CHR ''-'') ?b]"
      using False str_split_unfold [of "CHR ''-''" ?b] by simp
    then show ?thesis
      using False by (simp add: guess_missing_track_info_def Let_def)
  qed
qed

lemmas path_eval = filename_no_ext_def splitext_def basename_def rfind_def
  strip_def lstrip_def rstrip_def is_space_def Let_def

theorem guess_second_segment_witness:
  "guess_missing_track_info ''Artist - Title.mp3'' =
     Some \<lparr>td_artist = ''Artist'', td_name = ''Title''\<rparr>
   \<and> guess_missing_track_info ''NoDash.mp3'' = None"
  using guess_second_segment [of "''Artist - Title.mp3''"]
    guess_second_segment [of "''NoDash.mp3''"]
  by (simp add: path_eval)

text \<open>With two dashes the code and the wording of the specification part: the
  code keeps the middle segment only.\<close>

theorem guess_first_dash_counterexample:
  "guess_missing_track_info ''A-B-C.mp3'' = Some \<lparr>td_artist = ''A'', td_name = ''B''\<rparr>
   \<and> guess_first_dash_spec ''A-B-C.mp3'' = Some \<lparr>td_artist = ''A'', td_name = ''B-C''\<rparr>
   \<and> guess_missing_track_info ''A-B-C.mp3'' \<noteq> guess_first_dash_spec ''A-B-C.mp3''"
  by (simp add: guess_missing_track_info_def guess_first_dash_spec_def path_eval)

section \<open>Batches of the publisher\<close>

lemma concat_chunks_from:
  "0 < sz \<Longrightarrow>
   concat (map (\<lambda>pos. take sz (drop pos seq)) (xrange lo (length seq) sz)) = drop lo seq"
proof (induction lo "length seq" sz rule: xrange.induct)
  case (1 start step)
  show ?case
  proof (cases "length seq \<le> start")
    case True
    then show ?thesis by (simp add: xrange.simps [of start])
  next
    case False
    have unfold: "xrange start (length seq) step = start # xrange (start + step) (length seq) step"
      using False 1(2) by (simp add: xrange.simps [of start])
    have "concat (map (\<lambda>pos. take step (drop pos seq)) (xrange (start + step) (length seq) step))
          = drop (start + step) seq"
      using 1 False by simp
    then have "concat (map (\<lambda>pos. take step (drop pos seq)) (xrange start (length seq) step))
          = take step (drop start seq) @ drop step (drop start seq)"
      by (simp add: unfold add.commute)
    then show ?thesis by (simp only: append_take_drop_id)
  qed
qed

lemma xrange_150: "xrange 0 150 100 = [0, 100]"
  by code_simp

lemma add_batches_concat: "concat (add_batches spotify_tracks) = spotify_tracks"
  using concat_chunks_from [of 100 spotify_tracks 0]
  by (simp add: add_batches_def chunker_def)

lemma add_batches_bounded: "list_all (\<lambda>b. length b \<le> 100) (add_batches spotify_tracks)"
  by (simp add: add_batches_def chunker_def list_all_iff)

lemma add_batches_150:
  "length spotify_tracks = 150 \<Longrightarrow>
   add_batches spotify_tracks = [take 100 spotify_tracks, drop 100 spotify_tracks]"
  by (simp add: add_batches_def chunker_def xrange_150)

lemma add_loop_all_succeed:
  "(\<And>c. c \<in> set cs \<Longrightarrow> user_playlist_add_tracks E tok u pid c = Inr ()) \<Longrightarrow>
   add_loop E tok u pid cs = (map (Call_playlist_add_tracks u pid) cs, Inr ())"
  by (induction cs) simp_all

lemma issued_batches_adds:
  "issued_batches (map (Call_playlist_add_tracks u pid) cs @ evs) = cs @ issued_batches evs"
  by (induction cs) simp_all

text \<open>
  Claim C7.  For a non-empty list of matched identifiers, when the playlist is
  created and the remote service accepts every add call of at most 100
  identifiers (it may reject any larger one), the publisher creates the
  playlist and then issues add calls whose batches each hold at most 100
  identifiers and, concatenated in the order of the calls, are the original
  list.  For 150 identifiers these are two batches, of 100 and of 50.
\<close>

theorem publish_batches:
  assumes "spotify_tracks \<noteq> []"
    and "user_playlist_create E tok u n = Inr pid"
    and "\<forall>c. length c \<le> 100 \<longrightarrow> user_playlist_add_tracks E tok u pid c = Inr ()"
  shows "fst (publish E tok u n spotify_tracks) =
           Call_playlist_create u n
             # map (Call_playlist_add_tracks u pid) (add_batches spotify_tracks) @ [Print_done]
         \<and> issued_batches (fst (publish E tok u n spotify_tracks)) = add_batches spotify_tracks
         \<and> concat (issued_batches (fst (publish E tok u n spotify_tracks))) = spotify_tracks
         \<and> list_all (\<lambda>b. length b \<le> 100) (issued_batches (fst (publish E tok u n spotify_tracks)))
         \<and> (length spotify_tracks = 150 \<longrightarrow>
               map length (issued_batches (fst (publish E tok u n spotify_tracks))) = [100, 50])"
proof -
  have loop: "add_loop E tok u pid (add_batches spotify_tracks) =
                (map (Call_playlist_add_tracks u pid) (add_batches spotify_tracks), Inr ())"
    using assms(3) add_batches_bounded [of spotify_tracks]
    by (intro add_loop_all_succeed) (simp add: list_all_iff)
  have trace: "fst (publish E tok u n spotify_tracks) =
           Call_playlist_create u n
             # map (Call_playlist_add_tracks u pid) (add_batches spotify_tracks) @ [Print_done]"
    by (simp add: publish_def assms(2) loop)
  have issued: "issued_batches (fst (publish E tok u n spotify_tracks)) = add_batches spotify_tracks"
    by (simp add: trace issued_batches_adds)
  have sizes: "length spotify_tracks = 150 \<longrightarrow> map length (add_batches spotify_tracks) = [100, 50]"
    by (simp add: add_batches_150)
  show ?thesis
    using trace issued add_batches_concat [of spotify_tracks]
      add_batches_bounded [of spotify_tracks] sizes
    by simp
qed

theorem publish_batches_witness:
  "replicate 150 ''id'' \<noteq> []
   \<and> concat (issued_batches (fst (publish
        \<lparr>getenv = (\<lambda>_. None), readPlist = (\<lambda>_. Inr None), eyed3_load = (\<lambda>_. Inr None),
         sp = \<lparr>sp_search = (\<lambda>_. Inr []), how_similar = (\<lambda>_ _. 0)\<rparr>,
         prompt_for_user_token = (\<lambda>_. Inr (Some ''tok'')),
         user_playlist_create = (\<lambda>_ _ _. Inr ''pl''),
         user_playlist_add_tracks =
           (\<lambda>_ _ _ c. if length c \<le> 100 then Inr () else Inl (External ''too many ids''))\<rparr>
        ''tok'' ''user'' ''list.m3u'' (replicate 150 ''id'')))) = replicate 150 ''id''
   \<and> map length (issued_batches (fst (publish
        \<lparr>getenv = (\<lambda>_. None), readPlist = (\<lambda>_. Inr None), eyed3_load = (\<lambda>_. Inr None),
         sp = \<lparr>sp_search = (\<lambda>_. Inr []), how_similar = (\<lambda>_ _. 0)\<rparr>,
         prompt_for_user_token = (\<lambda>_. Inr (Some ''tok'')),
         user_playlist_create = (\<lambda>_ _ _. Inr ''pl''),
         user_playlist_add_tracks =
           (\<lambda>_ _ _ c. if length c \<le> 100 then Inr () else Inl (External ''too many ids''))\<rparr>
        ''tok'' ''user'' ''list.m3u'' (replicate 150 ''id'')))) = [100, 50]"
proof -
  let ?E = "\<lparr>getenv = (\<lambda>_. None), readPlist = (\<lambda>_. Inr None), eyed3_load = (\<lambda>_. Inr None),
         sp = \<lparr>sp_search = (\<lambda>_. Inr []), how_similar = (\<lambda>_ _. 0)\<rparr>,
         prompt_for_user_token = (\<lambda>_. Inr (Some ''tok'')),
         user_playlist_create = (\<lambda>_ _ _. Inr ''pl''),
         user_playlist_add_tracks =
           (\<lambda>_ _ _ c. if length c \<le> 100 then Inr () else Inl (External ''too many ids''))\<rparr>"
  have h1: "replicate 150 ''id'' \<noteq> []" by simp
  have h2: "user_playlist_create ?E ''tok'' ''user'' ''list.m3u'' = Inr ''pl''" by simp
  have h3: "\<forall>c. length c \<le> 100 \<longrightarrow>
              user_playlist_add_tracks ?E ''tok'' ''user'' ''pl'' c = Inr ()" by simp
  have len: "length (replicate 150 ''id'') = 150" by simp
  show ?thesis
    using publish_batches [OF h1 h2 h3] len h1 by blast
qed

section \<open>The playlist source reader\<close>

lemma file_lines_concat: "concat (file_lines s) = s"
  by (induction s) (auto split: list.splits)

lemma append_paths_map:
  "append_paths ts content =
     ts @ map (\<lambda>p. \<lparr>path = Some p, artist = None, name = None, source = None,
                      spotify_data = None\<rparr>) content"
  by (induction content arbitrary: ts) simp_all

text \<open>
  Claim C5.  For a file with extension \<^verbatim>\<open>.m3u\<close>, let \<open>kept\<close> be its lines that are
  not blank and do not start with \<^verbatim>\<open>#\<close>, in file order.  The reader returns
  exactly one descriptor per kept line, in the same order, whose path is the
  trimmed line and which holds no artist and no name; tags are to be read.
\<close>

theorem m3u_reader_descriptors:
  assumes "snd (splitext (pf_name f)) = ''.m3u''"
    and "kept = filter (\<lambda>line. strip line \<noteq> [] \<and> \<not> startswith line ''#'')
                 (file_lines (pf_text f))"
  shows "\<exists>ts. load_playlist_file rp f = ([], Inr \<lparr>tracks = ts, read_id3 = True\<rparr>)
            \<and> length ts = length kept
            \<and> (\<forall>i < length kept.
                  ts ! i = \<lparr>path = Some (strip (kept ! i)), artist = None, name = None,
                            source = None, spotify_data = None\<rparr>)"
  using assms
  by (simp add: load_playlist_file_def parse_m3u_def m3u_content_def append_paths_map)

theorem m3u_reader_descriptors_witness:
  "snd (splitext ''list.m3u'') = ''.m3u''
   \<and> load_playlist_file (\<lambda>_. Inr None)
        \<lparr>pf_name = ''list.m3u'',
         pf_text = ''#EXTM3U'' @ [CHR 0x0A] @ [CHR 0x0A] @ ''  a - b.mp3 '' @ [CHR 0x0A] @ ''c.mp3''\<rparr>
      = ([], Inr \<lparr>tracks =
                    [\<lparr>path = Some ''a - b.mp3'', artist = None, name = None, source = None,
                      spotify_data = None\<rparr>,
                     \<lparr>path = Some ''c.mp3'', artist = None, name = None, source = None,
                      spotify_data = None\<rparr>],
                  read_id3 = True\<rparr>)"
  using m3u_reader_descriptors
      [of "\<lparr>pf_name = ''list.m3u'',
            pf_text = ''#EXTM3U'' @ [CHR 0x0A] @ [CHR 0x0A] @ ''  a - b.mp3 '' @ [CHR 0x0A] @ ''c.mp3''\<rparr>"
          _ "\<lambda>_. Inr None", OF _ refl]
  by (simp add: load_playlist_file_def parse_m3u_def m3u_content_def startswith_def path_eval)

lemma startswith_hash: "startswith line ''#'' \<longleftrightarrow> (case line of [] \<Rightarrow> False | c # _ \<Rightarrow> c = CHR ''#'')"
  by (cases line) (simp_all add: startswith_def)

lemma lstrip_leading_space:
  "list_all is_space ws \<Longrightarrow> \<not> is_space c \<Longrightarrow> lstrip (ws @ c # rest) = c # rest"
  by (induction ws) (simp_all add: lstrip_def)

lemma rstrip_Cons: "\<not> is_space c \<Longrightarrow> rstrip (c # s) = c # rstrip s"
  by (simp add: rstrip_def dropWhile_append)

text \<open>
  Claim C10.  The reader tests the untrimmed line for a comment.  A line made of
  leading whitespace followed by \<^verbatim>\<open>#\<close> is not skipped: it yields a descriptor
  whose path is the trimmed line, which begins with \<^verbatim>\<open>#\<close>.  Among the lines that
  are not blank, exactly those whose first character is \<^verbatim>\<open>#\<close> are skipped.
\<close>

theorem m3u_comment_test_untrimmed:
  assumes "ws \<noteq> []" and "list_all is_space ws"
    and "line = ws @ CHR ''#'' # rest"
    and "line \<in> set (file_lines text)"
  shows "\<not> startswith line ''#''
         \<and> strip line = CHR ''#'' # rstrip rest
         \<and> \<lparr>path = Some (strip line), artist = None, name = None, source = None,
              spotify_data = None\<rparr> \<in> set (parse_m3u text [])
         \<and> parse_m3u text [] =
             map (\<lambda>l. \<lparr>path = Some (strip l), artist = None, name = None, source = None,
                        spotify_data = None\<rparr>)
               (filter (\<lambda>l. strip l \<noteq> [] \<and> (case l of [] \<Rightarrow> True | c # _ \<Rightarrow> c \<noteq> CHR ''#''))
                  (file_lines text))"
proof -
  have hash: "\<not> is_space (CHR ''#'')" by (simp add: is_space_def)
  obtain w ws' where ws: "ws = w # ws'" using assms(1) by (cases ws) auto
  have "is_space w" using assms(2) ws by simp
  then have "w \<noteq> CHR ''#''" using hash by auto
  then have not_comment: "\<not> startswith line ''#''"
    by (simp add: startswith_hash assms(3) ws)
  have stripped: "strip line = CHR ''#'' # rstrip rest"
    using assms(2,3) hash by (simp add: strip_def lstrip_leading_space rstrip_Cons)
  have test: "(\<lambda>l. strip l \<noteq> [] \<and> \<not> startswith l ''#'') =
              (\<lambda>l. strip l \<noteq> [] \<and> (case l of [] \<Rightarrow> True | c # _ \<Rightarrow> c \<noteq> CHR ''#''))"
    by (auto simp: fun_eq_iff startswith_hash split: list.splits)
  have all: "parse_m3u text [] =
             map (\<lambda>l. \<lparr>path = Some (strip l), artist = None, name = None, source = None,
                        spotify_data = None\<rparr>)
               (filter (\<lambda>l. strip l \<noteq> [] \<and> (case l of [] \<Rightarrow> True | c # _ \<Rightarrow> c \<noteq> CHR ''#''))
                  (file_lines text))"
    by (simp add: parse_m3u_def m3u_content_def append_paths_map test comp_def)
  have "line \<in> set (filter (\<lambda>l. strip l \<noteq> [] \<and> \<not> startswith l ''#'') (file_lines text))"
    using assms(4) not_comment stripped by simp
  then have member: "\<lparr>path = Some (strip line), artist = None, name = None, source = None,
              spotify_data = None\<rparr> \<in> set (parse_m3u text [])"
    by (simp add: parse_m3u_def m3u_content_def append_paths_map image_iff) blast
  show ?thesis using not_comment stripped member all by blast
qed

theorem m3u_comment_test_untrimmed_witness:
  "'' '' \<noteq> [] \<and> list_all is_space '' ''
   \<and> '' #EXTINF:1,x'' = '' '' @ CHR ''#'' # ''EXTINF:1,x''
   \<and> '' #EXTINF:1,x'' \<in> set (file_lines '' #EXTINF:1,x'')
   \<and> parse_m3u '' #EXTINF:1,x'' [] =
       [\<lparr>path = Some ''#EXTINF:1,x'', artist = None, name = None, source = None,
         spotify_data = None\<rparr>]"
proof -
  have h1: "'' '' \<noteq> []" by simp
  have h2: "list_all is_space '' ''" by (simp add: is_space_def)
  have h3: "'' #EXTINF:1,x'' = '' '' @ CHR ''#'' # ''EXTINF:1,x''" by simp
  have h4: "'' #EXTINF:1,x'' \<in> set (file_lines '' #EXTINF:1,x'')" by simp
  have "parse_m3u '' #EXTINF:1,x'' [] =
       [\<lparr>path = Some ''#EXTINF:1,x'', artist = None, name = None, source = None,
         spotify_data = None\<rparr>]"
    using m3u_comment_test_untrimmed [OF h1 h2 h3 h4]
    by (simp add: path_eval)
  then show ?thesis using h1 h2 h3 h4 by blast
qed

lemma append_itunes_map:
  "append_itunes ts metas = ts @ map itunes_track metas"
  by (induction metas arbitrary: ts) simp_all

text \<open>
  Claim C6.  For a file with extension \<^verbatim>\<open>.xml\<close> whose property list has a
  \<^verbatim>\<open>Tracks\<close> mapping, the reader returns exactly one descriptor per entry, with
  source \<open>Itunes\<close> and with artist and name taken from the entry's \<^verbatim>\<open>Artist\<close> and
  \<^verbatim>\<open>Name\<close> fields, a missing field being the empty string.  The flag returned
  with them is false, and under that flag the metadata block of the loop leaves
  every track as it is, whatever the tag reader would do: neither tags nor the
  filename heuristic are consulted.
\<close>

theorem xml_reader_descriptors:
  assumes "snd (splitext (pf_name f)) = ''.xml''"
    and "rp (pf_text f) = Inr (Some entries)"
  shows "\<exists>data. load_playlist_file rp f = ([], Inr data)
            \<and> read_id3 data = False
            \<and> length (tracks data) = length entries
            \<and> (\<forall>i < length entries.
                  tracks data ! i =
                    \<lparr>path = None,
                     artist = Some (case snd (entries ! i) ''Artist'' of
                                      Some a \<Rightarrow> a | None \<Rightarrow> []),
                     name = Some (case snd (entries ! i) ''Name'' of
                                    Some n \<Rightarrow> n | None \<Rightarrow> []),
                     source = Some Itunes, spotify_data = None\<rparr>)
            \<and> (\<forall>ld t. extract_metadata ld (read_id3 data) t = Inr t)"
  using assms
  by (simp add: load_playlist_file_def parse_xml_def append_itunes_map itunes_track_def
      extract_metadata_def)

theorem xml_reader_descriptors_witness:
  "snd (splitext ''Library.xml'') = ''.xml''
   \<and> load_playlist_file
        (\<lambda>_. Inr (Some [(''1'', [''Artist'' \<mapsto> ''A'', ''Name'' \<mapsto> ''B'']),
                          (''2'', [''Name'' \<mapsto> ''C''])]))
        \<lparr>pf_name = ''Library.xml'', pf_text = []\<rparr>
      = ([], Inr \<lparr>tracks =
                    [\<lparr>path = None, artist = Some ''A'', name = Some ''B'',
                      source = Some Itunes, spotify_data = None\<rparr>,
                     \<lparr>path = None, artist = Some [], name = Some ''C'',
                      source = Some Itunes, spotify_data = None\<rparr>],
                  read_id3 = False\<rparr>)"
  using xml_reader_descriptors
      [of "\<lparr>pf_name = ''Library.xml'', pf_text = []\<rparr>"
          "\<lambda>_. Inr (Some [(''1'', [''Artist'' \<mapsto> ''A'', ''Name'' \<mapsto> ''B'']),
                            (''2'', [''Name'' \<mapsto> ''C''])])"
          "[(''1'', [''Artist'' \<mapsto> ''A'', ''Name'' \<mapsto> ''B'']), (''2'', [''Name'' \<mapsto> ''C''])]"]
  by (simp add: load_playlist_file_def parse_xml_def itunes_track_def path_eval)

section \<open>Tag reading and the fallback\<close>

lemma read_id3_tags_recovers_raise:
  "ld p = Inl e \<Longrightarrow> is_Exception e \<Longrightarrow> read_id3_tags ld p = Inr None"
  by (simp add: read_id3_tags_def)

lemma read_id3_tags_loaded:
  "ld p = Inr (Some af) \<Longrightarrow>
   read_id3_tags ld p =
     Inr (case tag af of
            None \<Rightarrow> None
          | Some tg \<Rightarrow>
              (case tag_artist tg of
                 None \<Rightarrow> None
               | Some a \<Rightarrow>
                   (case tag_title tg of
                      None \<Rightarrow> None
                    | Some n \<Rightarrow> Some \<lparr>td_artist = a, td_name = n\<rparr>)))"
  by (simp add: read_id3_tags_def split: option.splits)

text \<open>
  Claim C4, as amended.  When the tag reader returns an audio file, the
  descriptor is populated from its tag, with source \<open>Id3\<close> and without the
  filename heuristic, exactly when the tag exists and both its artist and its
  title are present (not \<^verbatim>\<open>None\<close>); an empty string counts as present.  When the
  tag is missing or one of the two fields is \<^verbatim>\<open>None\<close>, the tag is not used and
  the filename heuristic applies.
\<close>

theorem tag_used_iff_fields_present:
  assumes "path t = Some p" and "ld p = Inr (Some af)"
  shows "extract_metadata ld True t =
           (case tag af of
              None \<Rightarrow> Inr (filename_fallback t p)
            | Some tg \<Rightarrow>
                (case tag_artist tg of
                   None \<Rightarrow> Inr (filename_fallback t p)
                 | Some a \<Rightarrow>
                     (case tag_title tg of
                        None \<Rightarrow> Inr (filename_fallback t p)
                      | Some n \<Rightarrow>
                          Inr (t\<lparr>artist := Some a, name := Some n, source := Some Id3\<rparr>))))"
  using assms
  by (simp add: extract_metadata_def read_id3_tags_loaded update_track_def split: option.splits)

theorem tag_used_iff_fields_present_witness:
  "path \<lparr>path = Some ''A - B.mp3'', artist = None, name = None, source = None,
          spotify_data = None\<rparr> = Some ''A - B.mp3''
   \<and> extract_metadata
        (\<lambda>_. Inr (Some \<lparr>tag = Some \<lparr>tag_artist = Some ''X'', tag_title = None\<rparr>\<rparr>)) True
        \<lparr>path = Some ''A - B.mp3'', artist = None, name = None, source = None,
          spotify_data = None\<rparr>
      = Inr \<lparr>path = Some ''A - B.mp3'', artist = Some ''A'', name = Some ''B'',
              source = Some Guess, spotify_data = None\<rparr>
   \<and> extract_metadata
        (\<lambda>_. Inr (Some \<lparr>tag = Some \<lparr>tag_artist = Some ''X'', tag_title = Some ''Y''\<rparr>\<rparr>)) True
        \<lparr>path = Some ''A - B.mp3'', artist = None, name = None, source = None,
          spotify_data = None\<rparr>
      = Inr \<lparr>path = Some ''A - B.mp3'', artist = Some ''X'', name = Some ''Y'',
              source = Some Id3, spotify_data = None\<rparr>"
  using tag_used_iff_fields_present
      [of "\<lparr>path = Some ''A - B.mp3'', artist = None, name = None, source = None,
            spotify_data = None\<rparr>" "''A - B.mp3''"
          "\<lambda>_. Inr (Some \<lparr>tag = Some \<lparr>tag_artist = Some ''X'', tag_title = None\<rparr>\<rparr>)"
          "\<lparr>tag = Some \<lparr>tag_artist = Some ''X'', tag_title = None\<rparr>\<rparr>"]
    tag_used_iff_fields_present
      [of "\<lparr>path = Some ''A - B.mp3'', artist = None, name = None, source = None,
            spotify_data = None\<rparr>" "''A - B.mp3''"
          "\<lambda>_. Inr (Some \<lparr>tag = Some \<lparr>tag_artist = Some ''X'', tag_title = Some ''Y''\<rparr>\<rparr>)"
          "\<lparr>tag = Some \<lparr>tag_artist = Some ''X'', tag_title = Some ''Y''\<rparr>\<rparr>"]
  by (simp add: filename_fallback_def guess_missing_track_info_def update_track_def path_eval)

text \<open>A tag whose artist is the empty string is used, although the file name
  would have given a guess.\<close>

theorem empty_artist_tag_counterexample:
  "extract_metadata
     (\<lambda>_. Inr (Some \<lparr>tag = Some \<lparr>tag_artist = Some [], tag_title = Some ''T''\<rparr>\<rparr>)) True
     \<lparr>path = Some ''A - B.mp3'', artist = None, name = None, source = None,
       spotify_data = None\<rparr>
   = Inr \<lparr>path = Some ''A - B.mp3'', artist = Some [], name = Some ''T'',
           source = Some Id3, spotify_data = None\<rparr>
   \<and> filename_fallback
        \<lparr>path = Some ''A - B.mp3'', artist = None, name = None, source = None,
          spotify_data = None\<rparr> ''A - B.mp3''
      = \<lparr>path = Some ''A - B.mp3'', artist = Some ''A'', name = Some ''B'',
          source = Some Guess, spotify_data = None\<rparr>"
  by (simp add: extract_metadata_def read_id3_tags_def filename_fallback_def
      guess_missing_track_info_def update_track_def path_eval)

text \<open>
  Claim C9 asks that no failure of the tag reader reaches the caller.  When
  \<^verbatim>\<open>eyed3.load\<close> returns \<^verbatim>\<open>None\<close>, as it does for a file whose type it does not
  recognise, \<^verbatim>\<open>read_id3_tags\<close> raises \<^verbatim>\<open>AttributeError\<close>, and so does the loop of
  \<^verbatim>\<open>main\<close>; the filename heuristic is not reached.
\<close>

theorem unrecognised_file_raises:
  "read_id3_tags (\<lambda>_. Inr None) ''Artist - Title.flac'' = Inl AttributeError
   \<and> extract_metadata (\<lambda>_. Inr None) True
        \<lparr>path = Some ''Artist - Title.flac'', artist = None, name = None, source = None,
          spotify_data = None\<rparr> = Inl AttributeError"
  by (simp add: extract_metadata_def read_id3_tags_def)

section \<open>The selection policy of the resolver\<close>

lemma rank_loop_None: "rank_loop rank xs = None \<longleftrightarrow> (\<forall>k \<in> set xs. rank k \<noteq> 1)"
  by (induction xs) auto

lemma rank_loop_Some:
  "rank_loop rank xs = Some c \<Longrightarrow>
   \<exists>i < length xs. xs ! i = c \<and> rank c = 1 \<and> (\<forall>j < i. rank (xs ! j) \<noteq> 1)"
proof (induction xs)
  case Nil
  then show ?case by simp
next
  case (Cons x xs)
  show ?case
  proof (cases "rank x = 1")
    case True
    with Cons.prems have "x = c" by simp
    with True show ?thesis by (intro exI [of _ 0]) simp
  next
    case False
    with Cons.prems have "rank_loop rank xs = Some c" by simp
    from Cons.IH [OF this] obtain i where
      i: "i < length xs" "xs ! i = c" "rank c = 1" "\<forall>j < i. rank (xs ! j) \<noteq> 1" by blast
    have "\<forall>j < Suc i. rank ((x # xs) ! j) \<noteq> 1"
      using False i(4) by (auto simp: nth_Cons split: nat.splits)
    with i show ?thesis by (intro exI [of _ "Suc i"]) simp
  qed
qed

lemma hd_insort_key:
  "hd (insort_key f x ys) = (if ys = [] \<or> f x \<le> f (hd ys) then x else hd ys)"
  by (cases ys) simp_all

lemma sort_key_not_Nil: "xs \<noteq> [] \<Longrightarrow> sort_key f xs \<noteq> []"
  by (cases xs) simp_all

lemma hd_sorted_reverse:
  "xs \<noteq> [] \<Longrightarrow>
   \<exists>i < length xs. hd (sorted_reverse rank xs) = xs ! i
      \<and> (\<forall>j < length xs. rank (xs ! j) \<le> rank (xs ! i))
      \<and> (\<forall>j < i. rank (xs ! j) < rank (xs ! i))"
proof (induction xs)
  case Nil
  then show ?case by simp
next
  case (Cons x xs)
  show ?case
  proof (cases "xs = []")
    case True
    then show ?thesis by (simp add: sorted_reverse_def)
  next
    case False
    from Cons.IH [OF False] obtain i where
      i: "i < length xs" "hd (sorted_reverse rank xs) = xs ! i"
         "\<forall>j < length xs. rank (xs ! j) \<le> rank (xs ! i)"
         "\<forall>j < i. rank (xs ! j) < rank (xs ! i)" by blast
    have ne: "sort_key (\<lambda>k. - rank k) xs \<noteq> []" using False by (rule sort_key_not_Nil)
    have hd_eq: "hd (sorted_reverse rank (x # xs)) =
                   (if rank (xs ! i) \<le> rank x then x else xs ! i)"
      using ne i(2) by (simp add: sorted_reverse_def hd_insort_key)
    show ?thesis
    proof (cases "rank (xs ! i) \<le> rank x")
      case True
      have "\<forall>j < length (x # xs). rank ((x # xs) ! j) \<le> rank x"
        using True i(3) by (auto simp: nth_Cons split: nat.splits)
      with True hd_eq show ?thesis by (intro exI [of _ 0]) simp
    next
      case lt: False
      have a: "\<forall>j < length (x # xs). rank ((x # xs) ! j) \<le> rank (xs ! i)"
        using lt i(3) by (auto simp: nth_Cons split: nat.splits)
      have b: "\<forall>j < Suc i. rank ((x # xs) ! j) < rank (xs ! i)"
        using lt i(4) by (auto simp: nth_Cons split: nat.splits)
      from lt hd_eq a b i(1) show ?thesis by (intro exI [of _ "Suc i"]) simp
    qed
  qed
qed

lemma sorted_reverse_stable_descending:
  "sorted (map (\<lambda>k. - rank k) (sorted_reverse rank xs))
   \<and> set (sorted_reverse rank xs) = set xs
   \<and> length (sorted_reverse rank xs) = length xs
   \<and> filter (\<lambda>k. rank k = r) (sorted_reverse rank xs) = filter (\<lambda>k. rank k = r) xs"
proof -
  have "filter (\<lambda>k. - rank k = - r) (sort_key (\<lambda>k. - rank k) xs)
        = filter (\<lambda>k. - rank k = - r) xs"
    by (rule sort_key_stable)
  then show ?thesis by (simp add: sorted_reverse_def)
qed

text \<open>
  Claim C1.  Let the catalog return a non-empty list of candidates for a
  query, and let the rank of a candidate be the similarity of its title to the
  query title.  If some candidate has rank exactly 1, the resolver returns the
  first such candidate in catalog order.  Otherwise it sorts the candidates by
  rank, descending and stably; the head of the sorted list is the first
  candidate in catalog order among those of greatest rank, and the resolver
  returns it if and only if its rank is strictly greater than 0.5.  So a best
  rank of exactly 0.5 gives no match.  (Returning a candidate means building
  the result from it, which raises when its artist list is empty.)
\<close>

theorem select_result_policy:
  assumes "sp_search S q = Inr items" and "items \<noteq> []"
    and "rank = (\<lambda>k. how_similar S t (c_name k))"
    and "r = select_result_from_spotify_search S q t spotify_match_threshold"
  shows "(\<exists>i < length items. rank (items ! i) = 1 \<and> (\<forall>j < i. rank (items ! j) \<noteq> 1)
            \<and> r = result_of (items ! i))
         \<or> ((\<forall>k \<in> set items. rank k \<noteq> 1)
            \<and> (\<exists>i < length items.
                  hd (sorted_reverse rank items) = items ! i
                  \<and> (\<forall>j < length items. rank (items ! j) \<le> rank (items ! i))
                  \<and> (\<forall>j < i. rank (items ! j) < rank (items ! i))
                  \<and> r = (if rank (items ! i) > 1 / 2 then result_of (items ! i) else Inr None)))"
proof (cases "rank_loop rank items")
  case (Some c)
  from rank_loop_Some [OF Some] obtain i where
    i: "i < length items" "items ! i = c" "rank c = 1" "\<forall>j < i. rank (items ! j) \<noteq> 1" by blast
  have "r = result_of c"
    using assms Some by (simp add: select_result_from_spotify_search_def)
  with i show ?thesis by blast
next
  case None
  then have no_exact: "\<forall>k \<in> set items. rank k \<noteq> 1" by (simp add: rank_loop_None)
  from hd_sorted_reverse [OF assms(2), of rank] obtain i where
    i: "i < length items" "hd (sorted_reverse rank items) = items ! i"
       "\<forall>j < length items. rank (items ! j) \<le> rank (items ! i)"
       "\<forall>j < i. rank (items ! j) < rank (items ! i)" by blast
  have "sorted_reverse rank items \<noteq> []"
    using assms(2) by (simp add: sorted_reverse_def sort_key_not_Nil)
  then obtain b bs where s: "sorted_reverse rank items = b # bs"
    by (cases "sorted_reverse rank items") auto
  with i(2) have b: "b = items ! i" by simp
  have "r = (if rank (items ! i) > 1 / 2 then result_of (items ! i) else Inr None)"
    using assms None s b
    by (simp add: select_result_from_spotify_search_def spotify_match_threshold_def)
  with no_exact i show ?thesis by blast
qed


theorem select_result_policy_witness:
  "sp_search \<lparr>sp_search = (\<lambda>_. Inr [\<lparr>c_id = ''1'', c_name = ''Halo'', c_artists = [''X'']\<rparr>,
                                          \<lparr>c_id = ''2'', c_name = ''Hello'', c_artists = [''Y'']\<rparr>]),
               how_similar = (\<lambda>a b. if a = b then 1 else 1 / 2)\<rparr> ''Y Hello''
     = Inr [\<lparr>c_id = ''1'', c_name = ''Halo'', c_artists = [''X'']\<rparr>,
            \<lparr>c_id = ''2'', c_name = ''Hello'', c_artists = [''Y'']\<rparr>]
   \<and> select_result_from_spotify_search
        \<lparr>sp_search = (\<lambda>_. Inr [\<lparr>c_id = ''1'', c_name = ''Halo'', c_artists = [''X'']\<rparr>,
                                   \<lparr>c_id = ''2'', c_name = ''Hello'', c_artists = [''Y'']\<rparr>]),
         how_similar = (\<lambda>a b. if a = b then 1 else 1 / 2)\<rparr>
        ''Y Hello'' ''Hello'' spotify_match_threshold
     = Inr (Some \<lparr>m_id = ''2'', m_name = ''Hello'', m_artist = ''Y''\<rparr>)
   \<and> select_result_from_spotify_search
        \<lparr>sp_search = (\<lambda>_. Inr [\<lparr>c_id = ''1'', c_name = ''Halo'', c_artists = [''X'']\<rparr>,
                                   \<lparr>c_id = ''2'', c_name = ''Hello'', c_artists = [''Y'']\<rparr>]),
         how_similar = (\<lambda>a b. if a = b then 1 else 1 / 2)\<rparr>
        ''Y Help'' ''Help'' spotify_match_threshold
     = Inr None"
  using select_result_policy
      [of "\<lparr>sp_search = (\<lambda>_. Inr [\<lparr>c_id = ''1'', c_name = ''Halo'', c_artists = [''X'']\<rparr>,
                                      \<lparr>c_id = ''2'', c_name = ''Hello'', c_artists = [''Y'']\<rparr>]),
            how_similar = (\<lambda>a b. if a = b then 1 else 1 / 2)\<rparr>"
          "''Y Hello''"
          "[\<lparr>c_id = ''1'', c_name = ''Halo'', c_artists = [''X'']\<rparr>,
            \<lparr>c_id = ''2'', c_name = ''Hello'', c_artists = [''Y'']\<rparr>]"
          _ "''Hello''", OF _ _ refl refl]
  by (simp add: select_result_from_spotify_search_def spotify_match_threshold_def
      sorted_reverse_def result_of_def)

section \<open>Search attempts per track\<close>

lemma find_spotify_track_single_attempt:
  "artist t = Some a \<Longrightarrow> name t = Some n \<Longrightarrow>
   find_spotify_track S t =
     ([search_string_of a n],
      select_result_from_spotify_search S (search_string_of a n) n spotify_match_threshold)"
  by (simp add: find_spotify_track_def)

lemma find_spotify_track_at_most_one: "length (fst (find_spotify_track S t)) \<le> 1"
  by (simp add: find_spotify_track_def split: option.splits)

text \<open>
  Claim C2, as amended.  In \<^verbatim>\<open>spotify-playlist-import.py\<close> the resolver sends at
  most one query per track.  For a track of an \<^verbatim>\<open>.m3u\<close> file: when tag data was
  read, the one query is built from the tag data and its outcome is final, also
  when it is no match; the filename guess is not computed then.  When no tag
  data was read and the file name gives a guess, the one query is built from the
  guess.
\<close>

theorem single_attempt_policy:
  assumes "path t = Some p"
  shows "(\<forall>d. read_id3_tags ld p = Inr (Some d) \<longrightarrow>
            (\<exists>t1. extract_metadata ld True t = Inr t1 \<and> source t1 = Some Id3
               \<and> find_spotify_track S t1 =
                   ([search_string_of (td_artist d) (td_name d)],
                    select_result_from_spotify_search S
                      (search_string_of (td_artist d) (td_name d)) (td_name d)
                      spotify_match_threshold)))
         \<and> (\<forall>g. read_id3_tags ld p = Inr None \<and> guess_missing_track_info p = Some g \<longrightarrow>
            (\<exists>t1. extract_metadata ld True t = Inr t1 \<and> source t1 = Some Guess
               \<and> find_spotify_track S t1 =
                   ([search_string_of (td_artist g) (td_name g)],
                    select_result_from_spotify_search S
                      (search_string_of (td_artist g) (td_name g)) (td_name g)
                      spotify_match_threshold)))
         \<and> (\<forall>t1. length (fst (find_spotify_track S t1)) \<le> 1)"
  using assms
  by (simp add: extract_metadata_def filename_fallback_def update_track_def
      find_spotify_track_def split: option.splits)

theorem single_attempt_policy_witness:
  "path \<lparr>path = Some ''A - B.mp3'', artist = None, name = None, source = None,
          spotify_data = None\<rparr> = Some ''A - B.mp3''
   \<and> read_id3_tags (\<lambda>_. Inl (External ''IOError'')) ''A - B.mp3'' = Inr None
   \<and> guess_missing_track_info ''A - B.mp3'' = Some \<lparr>td_artist = ''A'', td_name = ''B''\<rparr>
   \<and> extract_metadata (\<lambda>_. Inl (External ''IOError'')) True
        \<lparr>path = Some ''A - B.mp3'', artist = None, name = None, source = None,
          spotify_data = None\<rparr>
      = Inr \<lparr>path = Some ''A - B.mp3'', artist = Some ''A'', name = Some ''B'',
              source = Some Guess, spotify_data = None\<rparr>
   \<and> find_spotify_track
        \<lparr>sp_search = (\<lambda>q. Inr [\<lparr>c_id = ''7'', c_name = ''B'', c_artists = [''A'']\<rparr>]),
         how_similar = (\<lambda>a b. if a = b then 1 else 0)\<rparr>
        \<lparr>path = Some ''A - B.mp3'', artist = Some ''A'', name = Some ''B'',
          source = Some Guess, spotify_data = None\<rparr>
      = ([''A B''], Inr (Some \<lparr>m_id = ''7'', m_name = ''B'', m_artist = ''A''\<rparr>))"
  using single_attempt_policy
      [of "\<lparr>path = Some ''A - B.mp3'', artist = None, name = None, source = None,
            spotify_data = None\<rparr>" "''A - B.mp3''" "\<lambda>_. Inl (External ''IOError'')"
          "\<lparr>sp_search = (\<lambda>q. Inr [\<lparr>c_id = ''7'', c_name = ''B'', c_artists = [''A'']\<rparr>]),
            how_similar = (\<lambda>a b. if a = b then 1 else 0)\<rparr>"]
  by (simp add: extract_metadata_def read_id3_tags_def filename_fallback_def
      guess_missing_track_info_def update_track_def find_spotify_track_def
      select_result_from_spotify_search_def spotify_match_threshold_def
      sorted_reverse_def result_of_def search_string_of_def path_eval)

text \<open>
  A track with tags \<^verbatim>\<open>X\<close>, \<^verbatim>\<open>Y\<close> in a file named \<^verbatim>\<open>A - B.mp3\<close>, and a catalog that
  knows nothing for the query \<^verbatim>\<open>X Y\<close> and has an exact match for \<^verbatim>\<open>A B\<close>: the tag
  search gives no match, the file name would give a guess whose search
  matches, and the resolver sends the tag query only and returns no match.
\<close>

theorem no_guess_retry_counterexample:
  "extract_metadata
     (\<lambda>_. Inr (Some \<lparr>tag = Some \<lparr>tag_artist = Some ''X'', tag_title = Some ''Y''\<rparr>\<rparr>)) True
     \<lparr>path = Some ''A - B.mp3'', artist = None, name = None, source = None,
       spotify_data = None\<rparr>
   = Inr \<lparr>path = Some ''A - B.mp3'', artist = Some ''X'', name = Some ''Y'',
           source = Some Id3, spotify_data = None\<rparr>
   \<and> find_spotify_track
        \<lparr>sp_search = (\<lambda>q. if q = ''A B''
                            then Inr [\<lparr>c_id = ''7'', c_name = ''B'', c_artists = [''A'']\<rparr>]
                            else Inr []),
         how_similar = (\<lambda>a b. if a = b then 1 else 0)\<rparr>
        \<lparr>path = Some ''A - B.mp3'', artist = Some ''X'', name = Some ''Y'',
          source = Some Id3, spotify_data = None\<rparr>
      = ([''X Y''], Inr None)
   \<and> guess_missing_track_info ''A - B.mp3'' = Some \<lparr>td_artist = ''A'', td_name = ''B''\<rparr>
   \<and> select_result_from_spotify_search
        \<lparr>sp_search = (\<lambda>q. if q = ''A B''
                            then Inr [\<lparr>c_id = ''7'', c_name = ''B'', c_artists = [''A'']\<rparr>]
                            else Inr []),
         how_similar = (\<lambda>a b. if a = b then 1 else 0)\<rparr>
        ''A B'' ''B'' spotify_match_threshold
      = Inr (Some \<lparr>m_id = ''7'', m_name = ''B'', m_artist = ''A''\<rparr>)"
  by (simp add: extract_metadata_def read_id3_tags_def update_track_def
      guess_missing_track_info_def find_spotify_track_def
      select_result_from_spotify_search_def spotify_match_threshold_def
      sorted_reverse_def result_of_def search_string_of_def path_eval)

text \<open>
  \<^verbatim>\<open>find_spotify_track\<close> of \<^verbatim>\<open>read-id3-tags.py\<close> does try the guess after a tag
  search without match when a track holds both.  Its caller writes the guess
  only when there is no tag data, and with one of the two missing the function
  sends at most one query.
\<close>

lemma rid3_at_most_one_query:
  "id3_data t = None \<or> guess t = None \<Longrightarrow> length (fst (find_spotify_track_rid3 S t)) \<le> 1"
  by (auto simp: find_spotify_track_rid3_def guess_attempt_rid3_def Let_def
      split: sum.splits option.splits)

lemma rid3_two_attempts:
  assumes "id3_data t = Some d" and "guess t = Some g"
    and "first = select_result_from_spotify_search S
                   (search_string_of (td_artist d) (td_name d)) (td_name d)
                   spotify_match_threshold"
    and "second = select_result_from_spotify_search S
                    (search_string_of (td_artist g) (td_name g)) (td_name g)
                    spotify_match_threshold"
  shows "(\<forall>m. first = Inr (Some m) \<longrightarrow>
            find_spotify_track_rid3 S t =
              ([search_string_of (td_artist d) (td_name d)], Inr (Some m)))
         \<and> (first = Inr None \<longrightarrow>
            find_spotify_track_rid3 S t =
              ([search_string_of (td_artist d) (td_name d),
                search_string_of (td_artist g) (td_name g)], second))
         \<and> length (fst (find_spotify_track_rid3 S t)) \<le> 2
         \<and> hd (fst (find_spotify_track_rid3 S t)) = search_string_of (td_artist d) (td_name d)"
  using assms
  by (auto simp: find_spotify_track_rid3_def guess_attempt_rid3_def Let_def
      split: sum.splits option.splits)

lemma rid3_two_attempts_example:
  "find_spotify_track_rid3
     \<lparr>sp_search = (\<lambda>q. if q = ''A T'' then Inr []
                         else Inr [\<lparr>c_id = ''7'', c_name = ''U'', c_artists = [''B'']\<rparr>]),
      how_similar = (\<lambda>a b. if a = b then 1 else 0)\<rparr>
     \<lparr>id3_data = Some \<lparr>td_artist = ''A'', td_name = ''T''\<rparr>,
      guess = Some \<lparr>td_artist = ''B'', td_name = ''U''\<rparr>\<rparr>
   = ([''A T'', ''B U''], Inr (Some \<lparr>m_id = ''7'', m_name = ''U'', m_artist = ''B''\<rparr>))
   \<and> find_spotify_track_rid3
     \<lparr>sp_search = (\<lambda>q. Inr [\<lparr>c_id = ''7'', c_name = ''T'', c_artists = [''A'']\<rparr>]),
      how_similar = (\<lambda>a b. if a = b then 1 else 0)\<rparr>
     \<lparr>id3_data = Some \<lparr>td_artist = ''A'', td_name = ''T''\<rparr>,
      guess = Some \<lparr>td_artist = ''B'', td_name = ''U''\<rparr>\<rparr>
   = ([''A T''], Inr (Some \<lparr>m_id = ''7'', m_name = ''T'', m_artist = ''A''\<rparr>))"
  using rid3_two_attempts
      [of "\<lparr>id3_data = Some \<lparr>td_artist = ''A'', td_name = ''T''\<rparr>,
            guess = Some \<lparr>td_artist = ''B'', td_name = ''U''\<rparr>\<rparr>"
          "\<lparr>td_artist = ''A'', td_name = ''T''\<rparr>" "\<lparr>td_artist = ''B'', td_name = ''U''\<rparr>"
          _ "\<lparr>sp_search = (\<lambda>q. if q = ''A T'' then Inr []
                         else Inr [\<lparr>c_id = ''7'', c_name = ''U'', c_artists = [''B'']\<rparr>]),
      how_similar = (\<lambda>a b. if a = b then 1 else 0)\<rparr>", OF _ _ refl refl]
    rid3_two_attempts
      [of "\<lparr>id3_data = Some \<lparr>td_artist = ''A'', td_name = ''T''\<rparr>,
            guess = Some \<lparr>td_artist = ''B'', td_name = ''U''\<rparr>\<rparr>"
          "\<lparr>td_artist = ''A'', td_name = ''T''\<rparr>" "\<lparr>td_artist = ''B'', td_name = ''U''\<rparr>"
          _ "\<lparr>sp_search = (\<lambda>q. Inr [\<lparr>c_id = ''7'', c_name = ''T'', c_artists = [''A'']\<rparr>]),
      how_similar = (\<lambda>a b. if a = b then 1 else 0)\<rparr>", OF _ _ refl refl]
  by (simp add: select_result_from_spotify_search_def spotify_match_threshold_def
      sorted_reverse_def result_of_def search_string_of_def)

section \<open>A run without matches\<close>

text \<open>With no matched identifier, \<^verbatim>\<open>main\<close> reports that nothing matched and
  returns 1 before it asks for a token: no call goes to the remote service.\<close>

lemma finish_no_matches:
  "matched_ids ts = [] \<Longrightarrow> finish E a ts = ([Print_no_tracks_matched], Inr (Some 1))"
  by (simp add: finish_def)

lemma run_status_after_return:
  "main E a = (evs, Inr v) \<Longrightarrow> run E a = (evs, 0)"
  by (simp add: run_def exit_status_def)

text \<open>
  Claim C8 asks that such a run ends with exit code 1.  For an empty \<^verbatim>\<open>.m3u\<close>
  file \<^verbatim>\<open>main\<close> creates no playlist, reports that nothing matched and returns
  1, but the script calls \<^verbatim>\<open>main()\<close> without passing its value to \<^verbatim>\<open>sys.exit\<close>,
  so the process ends with status 0.
\<close>

theorem zero_matches_exit_status:
  "main \<lparr>getenv = (\<lambda>_. Some ''x''), readPlist = (\<lambda>_. Inr None), eyed3_load = (\<lambda>_. Inr None),
         sp = \<lparr>sp_search = (\<lambda>_. Inr []), how_similar = (\<lambda>_ _. 0)\<rparr>,
         prompt_for_user_token = (\<lambda>_. Inr (Some ''tok'')),
         user_playlist_create = (\<lambda>_ _ _. Inr ''pl''),
         user_playlist_add_tracks = (\<lambda>_ _ _ _. Inr ())\<rparr>
        \<lparr>file_arg = \<lparr>pf_name = ''empty.m3u'', pf_text = []\<rparr>, username = ''user''\<rparr>
     = ([Print_parsed 0 ''empty.m3u'', Print_no_tracks_matched], Inr (Some 1))
   \<and> run \<lparr>getenv = (\<lambda>_. Some ''x''), readPlist = (\<lambda>_. Inr None), eyed3_load = (\<lambda>_. Inr None),
         sp = \<lparr>sp_search = (\<lambda>_. Inr []), how_similar = (\<lambda>_ _. 0)\<rparr>,
         prompt_for_user_token = (\<lambda>_. Inr (Some ''tok'')),
         user_playlist_create = (\<lambda>_ _ _. Inr ''pl''),
         user_playlist_add_tracks = (\<lambda>_ _ _ _. Inr ())\<rparr>
        \<lparr>file_arg = \<lparr>pf_name = ''empty.m3u'', pf_text = []\<rparr>, username = ''user''\<rparr>
     = ([Print_parsed 0 ''empty.m3u'', Print_no_tracks_matched], 0)"
  by (simp add: run_def exit_status_def main_def init_credentials_manager_def truthy_def
      load_playlist_file_def parse_m3u_def m3u_content_def finish_def path_eval)

end
